theory Spec2Isabelle
  imports Complex_Main "HOL-Library.Multiset"
begin

section \<open>The dataset analyzer of the DataAnalyzer component\<close>

text \<open>
  The component defines two pure functions, \<open>round\<close> and \<open>analyze\<close>. Both work on
  JavaScript numbers. A number is modelled here as an exact real, or one of the three
  special values the language has: the two infinities and not-a-number. The arithmetic
  of the special values is the one of the language; the arithmetic of finite values is
  exact, so rounding error and overflow of the 64-bit format are outside this model, and
  so is the sign of zero.
\<close>

subsection \<open>Numbers\<close>

datatype number = Fin real | PInf | NInf | NaN

fun isNaN :: "number \<Rightarrow> bool" where
  "isNaN NaN = True"
| "isNaN _ = False"


fun js_neg :: "number \<Rightarrow> number" where
  "js_neg (Fin a) = Fin (- a)"
| "js_neg PInf = NInf"
| "js_neg NInf = PInf"
| "js_neg NaN = NaN"

fun js_add :: "number \<Rightarrow> number \<Rightarrow> number" where
  "js_add (Fin a) (Fin b) = Fin (a + b)"
| "js_add (Fin a) PInf = PInf"
| "js_add (Fin a) NInf = NInf"
| "js_add PInf (Fin b) = PInf"
| "js_add PInf PInf = PInf"
| "js_add PInf NInf = NaN"
| "js_add NInf (Fin b) = NInf"
| "js_add NInf NInf = NInf"
| "js_add NInf PInf = NaN"
| "js_add NaN _ = NaN"
| "js_add _ NaN = NaN"

definition js_sub :: "number \<Rightarrow> number \<Rightarrow> number" where
  "js_sub a b = js_add a (js_neg b)"

text \<open>The sign of a product or quotient with an infinite operand; a zero factor gives NaN.\<close>

definition signed_inf :: "real \<Rightarrow> number" where
  "signed_inf s = (if s = 0 then NaN else if 0 < s then PInf else NInf)"

fun js_mul :: "number \<Rightarrow> number \<Rightarrow> number" where
  "js_mul (Fin a) (Fin b) = Fin (a * b)"
| "js_mul (Fin a) PInf = signed_inf a"
| "js_mul (Fin a) NInf = signed_inf (- a)"
| "js_mul PInf (Fin b) = signed_inf b"
| "js_mul NInf (Fin b) = signed_inf (- b)"
| "js_mul PInf PInf = PInf"
| "js_mul PInf NInf = NInf"
| "js_mul NInf PInf = NInf"
| "js_mul NInf NInf = PInf"
| "js_mul NaN _ = NaN"
| "js_mul _ NaN = NaN"

text \<open>
  Division: a finite non-zero value over zero is an infinity, zero over zero and an
  infinity over an infinity are NaN. A zero divisor is taken as positive zero.
\<close>

fun js_div :: "number \<Rightarrow> number \<Rightarrow> number" where
  "js_div (Fin a) (Fin b) = (if b = 0 then signed_inf a else Fin (a / b))"
| "js_div (Fin a) PInf = Fin 0"
| "js_div (Fin a) NInf = Fin 0"
| "js_div PInf (Fin b) = (if b < 0 then NInf else PInf)"
| "js_div NInf (Fin b) = (if b < 0 then PInf else NInf)"
| "js_div PInf PInf = NaN"
| "js_div PInf NInf = NaN"
| "js_div NInf PInf = NaN"
| "js_div NInf NInf = NaN"
| "js_div NaN _ = NaN"
| "js_div _ NaN = NaN"

text \<open>The comparisons \<open><\<close>, \<open>>\<close>, \<open><=\<close> and \<open>===\<close>: each is false when an operand is NaN.\<close>

fun js_lt :: "number \<Rightarrow> number \<Rightarrow> bool" where
  "js_lt (Fin a) (Fin b) = (a < b)"
| "js_lt (Fin a) PInf = True"
| "js_lt NInf (Fin b) = True"
| "js_lt NInf PInf = True"
| "js_lt _ _ = False"

definition js_gt :: "number \<Rightarrow> number \<Rightarrow> bool" where
  "js_gt a b = js_lt b a"

definition js_eq :: "number \<Rightarrow> number \<Rightarrow> bool" where
  "js_eq a b = (\<not> isNaN a \<and> \<not> isNaN b \<and> a = b)"


fun Math_floor :: "number \<Rightarrow> number" where
  "Math_floor (Fin a) = Fin (of_int \<lfloor>a\<rfloor>)"
| "Math_floor x = x"

fun Math_ceil :: "number \<Rightarrow> number" where
  "Math_ceil (Fin a) = Fin (of_int \<lceil>a\<rceil>)"
| "Math_ceil x = x"

text \<open>\<open>Math.round\<close> gives the integer nearest to its argument, a tie going up.\<close>

fun Math_round :: "number \<Rightarrow> number" where
  "Math_round (Fin a) = Fin (of_int \<lfloor>a + 1 / 2\<rfloor>)"
| "Math_round x = x"

fun Math_sqrt :: "number \<Rightarrow> number" where
  "Math_sqrt (Fin a) = (if a < 0 then NaN else Fin (sqrt a))"
| "Math_sqrt PInf = PInf"
| "Math_sqrt NInf = NaN"
| "Math_sqrt NaN = NaN"

text \<open>
  \<open>Math.pow\<close> is only called with the exponents \<open>2\<close> and \<open>digits\<close>, so the exponent
  is a natural number here. The exponent zero gives one for every base.
\<close>

fun Math_pow :: "number \<Rightarrow> nat \<Rightarrow> number" where
  "Math_pow x 0 = Fin 1"
| "Math_pow (Fin a) n = Fin (a ^ n)"
| "Math_pow PInf n = PInf"
| "Math_pow NInf n = (if even n then PInf else NInf)"
| "Math_pow NaN n = NaN"

subsection \<open>Rounding to a number of decimal digits\<close>

text \<open>
  \<^verbatim>\<open>const round = (n, digits = 2) => Math.round(n * Math.pow(10, digits)) / Math.pow(10, digits)\<close>
\<close>

definition round_js :: "number \<Rightarrow> nat \<Rightarrow> number" where
  "round_js n digits =
     js_div (Math_round (js_mul n (Math_pow (Fin 10) digits))) (Math_pow (Fin 10) digits)"

subsection \<open>Input elements and their coercion\<close>

text \<open>
  The input is an array of arbitrary values. The analyzer tells numbers and strings
  from everything else, so the other values are kept as a few representative cases.
\<close>

datatype raw = Num number | Str string | Null | Undefined | Bool bool | Obj

text \<open>
  \<open>trim\<close> removes white space at both ends. Characters are the ones with a code
  up to 255; among them the white space and line terminator characters of the language
  are the following seven.
\<close>

definition is_ws :: "char \<Rightarrow> bool" where
  "is_ws c = (c \<in> set [CHR 0x09, CHR 0x0A, CHR 0x0B, CHR 0x0C, CHR 0x0D, CHR 0x20, CHR 0xA0])"

definition trim :: "string \<Rightarrow> string" where
  "trim s = rev (dropWhile is_ws (rev (dropWhile is_ws s)))"

text \<open>
  The conversion \<open>Number(x)\<close> of a string is a function of the language, not of this
  component: the analyzer takes it as the parameter \<open>N\<close>.

  The callback of \<open>map\<close> gives the number or \<open>null\<close>; the \<open>filter\<close> after it keeps
  what is not \<open>null\<close>.
\<close>

definition coerce_elem :: "(string \<Rightarrow> number) \<Rightarrow> raw \<Rightarrow> number option" where
  "coerce_elem N x =
     (case x of
        Num n \<Rightarrow> if \<not> isNaN n then Some n else None
      | Str s \<Rightarrow> if trim s \<noteq> [] \<and> \<not> isNaN (N s) then Some (N s) else None
      | _ \<Rightarrow> None)"

definition coerce :: "(string \<Rightarrow> number) \<Rightarrow> raw list \<Rightarrow> number list" where
  "coerce N arr = map the (filter (\<lambda>x. x \<noteq> None) (map (coerce_elem N) arr))"

text \<open>
  For closed examples a conversion is needed. \<open>Number_decimal\<close> converts the
  strings that are, between white space, empty, a signed \<open>Infinity\<close> or a signed
  decimal literal without exponent, as the language does. Every other string is NaN
  here, although the language gives some of them a value (exponents, radix prefixes);
  such strings occur in no example, and the theorems below hold for every conversion.
\<close>

definition digit_of :: "char \<Rightarrow> nat option" where
  "digit_of c = (let k = (of_char c :: nat) in if 48 \<le> k \<and> k \<le> 57 then Some (k - 48) else None)"

definition all_digits :: "string \<Rightarrow> bool" where
  "all_digits s = list_all (\<lambda>c. digit_of c \<noteq> None) s"

definition digits_value :: "string \<Rightarrow> nat" where
  "digits_value s = foldl (\<lambda>a c. 10 * a + the (digit_of c)) 0 s"

definition unsigned_decimal :: "string \<Rightarrow> number" where
  "unsigned_decimal s =
     (if s = ''Infinity'' then PInf
      else
        let ip = takeWhile (\<lambda>c. c \<noteq> CHR ''.'') s;
            fp = tl (dropWhile (\<lambda>c. c \<noteq> CHR ''.'') s)
        in if all_digits ip \<and> all_digits fp \<and> (ip \<noteq> [] \<or> fp \<noteq> [])
           then Fin (real (digits_value ip) + real (digits_value fp) / 10 ^ length fp)
           else NaN)"

definition Number_decimal :: "string \<Rightarrow> number" where
  "Number_decimal s =
     (case trim s of
        [] \<Rightarrow> Fin 0
      | c # u \<Rightarrow>
          if c = CHR ''-'' then js_neg (unsigned_decimal u)
          else if c = CHR ''+'' then unsigned_decimal u
          else unsigned_decimal (c # u))"

subsection \<open>Sorting with the comparator\<close>

text \<open>
  \<^verbatim>\<open>nums.sort((a, b) => a - b)\<close>. The sort of the language is stable, and a
  comparator result that is NaN counts as zero. It is modelled as a stable insertion
  sort that moves an element behind another one only when the comparator, applied to
  the two, is greater than zero.
\<close>

definition cmp :: "number \<Rightarrow> number \<Rightarrow> number" where
  "cmp a b = js_sub a b"

fun insert_sorted :: "(number \<Rightarrow> number \<Rightarrow> number) \<Rightarrow> number \<Rightarrow> number list \<Rightarrow> number list" where
  "insert_sorted c x [] = [x]"
| "insert_sorted c x (y # ys) =
     (if js_gt (c x y) (Fin 0) then y # insert_sorted c x ys else x # y # ys)"

definition sort_with :: "(number \<Rightarrow> number \<Rightarrow> number) \<Rightarrow> number list \<Rightarrow> number list" where
  "sort_with c xs = foldr (insert_sorted c) xs []"

subsection \<open>The statistics\<close>

text \<open>
  Each local constant of \<open>analyze\<close> is a function of the sorted array \<open>nums\<close> here,
  so that the values before rounding can be named.
\<close>

definition sum_of :: "number list \<Rightarrow> number" where
  "sum_of nums = foldl (\<lambda>s v. js_add s v) (Fin 0) nums"

definition avg_of :: "number list \<Rightarrow> number" where
  "avg_of nums = js_div (sum_of nums) (Fin (real (length nums)))"

definition min_of :: "number list \<Rightarrow> number" where
  "min_of nums = nums ! 0"

definition max_of :: "number list \<Rightarrow> number" where
  "max_of nums = nums ! (length nums - 1)"

definition range_of :: "number list \<Rightarrow> number" where
  "range_of nums = js_sub (max_of nums) (min_of nums)"

definition median_of :: "number list \<Rightarrow> number" where
  "median_of nums =
     (let count = length nums in
      if count mod 2 = 1 then nums ! ((count - 1) div 2)
      else js_div (js_add (nums ! (count div 2 - 1)) (nums ! (count div 2))) (Fin 2))"

definition variance_of :: "number list \<Rightarrow> number" where
  "variance_of nums =
     js_div (foldl (\<lambda>acc v. js_add acc (Math_pow (js_sub v (avg_of nums)) 2)) (Fin 0) nums)
            (Fin (real (length nums)))"

definition stddev_of :: "number list \<Rightarrow> number" where
  "stddev_of nums = Math_sqrt (variance_of nums)"

text \<open>
  Reading an array at a number: the element when the number is an index of the array,
  \<open>undefined\<close> otherwise. \<open>undefined\<close> is written NaN, which is what it becomes in
  the arithmetic of \<open>percentile\<close>.
\<close>

definition at_index :: "number list \<Rightarrow> number \<Rightarrow> number" where
  "at_index nums i =
     (case i of
        Fin a \<Rightarrow> if 0 \<le> a \<and> a < real (length nums) \<and> of_int \<lfloor>a\<rfloor> = a
                 then nums ! nat \<lfloor>a\<rfloor> else NaN
      | _ \<Rightarrow> NaN)"

definition percentile_of :: "number list \<Rightarrow> number \<Rightarrow> number" where
  "percentile_of nums p =
     (if js_lt p (Fin 0) \<or> js_gt p (Fin 100) then NaN
      else
        let idx = js_mul (js_div p (Fin 100)) (Fin (real (length nums) - 1));
            lower = Math_floor idx;
            upper = Math_ceil idx
        in if js_eq lower upper then at_index nums lower
           else
             let weight = js_sub idx lower
             in js_add (js_mul (at_index nums lower) (js_sub (Fin 1) weight))
                       (js_mul (at_index nums upper) weight))"

record analysis =
  nums :: "number list"
  count_r :: nat
  sum_r :: number
  avg :: number
  min_r :: number
  max_r :: number
  range_r :: number
  median :: number
  stddev :: number
  percentile :: "number \<Rightarrow> number"
  aboveAvg :: "number list"
  belowAvg :: "number list"

definition analyze :: "(string \<Rightarrow> number) \<Rightarrow> raw list \<Rightarrow> string + analysis" where
  "analyze N arr =
     (let coerced = coerce N arr in
      if length coerced = 0 then Inl ''No valid numeric values found.''
      else
        let sorted_nums = sort_with cmp coerced
        in Inr \<lparr> nums = sorted_nums,
                 count_r = length sorted_nums,
                 sum_r = round_js (sum_of sorted_nums) 2,
                 avg = round_js (avg_of sorted_nums) 2,
                 min_r = min_of sorted_nums,
                 max_r = max_of sorted_nums,
                 range_r = round_js (range_of sorted_nums) 2,
                 median = round_js (median_of sorted_nums) 2,
                 stddev = round_js (stddev_of sorted_nums) 2,
                 percentile = percentile_of sorted_nums,
                 aboveAvg = filter (\<lambda>n. js_gt n (avg_of sorted_nums)) sorted_nums,
                 belowAvg = filter (\<lambda>n. js_lt n (avg_of sorted_nums)) sorted_nums \<rparr>)"

subsection \<open>Rounding as the specification words it\<close>



subsection \<open>Interpolation on a list of reals\<close>


section \<open>Basic facts\<close>

subsection \<open>Coercion and the result record\<close>

lemmas example_defs =
  coerce_def coerce_elem_def Number_decimal_def trim_def is_ws_def unsigned_decimal_def
  all_digits_def digit_of_def digits_value_def

lemma coerce_Nil: "coerce N [] = []"
  by (simp add: coerce_def)

lemma coerce_Cons:
  "coerce N (x # xs) =
     (case coerce_elem N x of None \<Rightarrow> coerce N xs | Some n \<Rightarrow> n # coerce N xs)"
  by (simp add: coerce_def split: option.splits)

lemma coerce_append: "coerce N (xs @ ys) = coerce N xs @ coerce N ys"
  by (simp add: coerce_def)

lemma coerce_elem_not_NaN: "coerce_elem N x = Some n \<Longrightarrow> \<not> isNaN n"
  by (auto simp: coerce_elem_def split: raw.splits if_splits)

lemma coerce_not_NaN: "n \<in> set (coerce N arr) \<Longrightarrow> \<not> isNaN n"
  by (induction arr)
     (auto simp: coerce_Nil coerce_Cons split: option.splits dest: coerce_elem_not_NaN)

lemma coerce_all_Num:
  "\<forall>x\<in>set arr. \<exists>a. x = Num (Fin a) \<Longrightarrow> length (coerce N arr) = length arr"
  by (induction arr) (auto simp: coerce_Nil coerce_Cons coerce_elem_def)

lemma length_insert_sorted: "length (insert_sorted c x ys) = Suc (length ys)"
  by (induction ys) auto

lemma length_sort_with: "length (sort_with c xs) = length xs"
  by (induction xs) (auto simp: sort_with_def length_insert_sorted)

lemma mset_insert_sorted: "mset (insert_sorted c x ys) = add_mset x (mset ys)"
  by (induction ys) auto

lemma mset_sort_with: "mset (sort_with c xs) = mset xs"
  by (induction xs) (auto simp: sort_with_def mset_insert_sorted)

lemma analyze_Inl:
  "coerce N arr = [] \<Longrightarrow> analyze N arr = Inl ''No valid numeric values found.''"
  by (simp add: analyze_def)

lemma analyze_Inr: "coerce N arr \<noteq> [] \<Longrightarrow> \<exists>r. analyze N arr = Inr r"
  by (simp add: analyze_def Let_def)

lemma analyze_nums:
  "analyze N arr = Inr r \<Longrightarrow> nums r = sort_with cmp (coerce N arr) \<and> coerce N arr \<noteq> []"
  by (auto simp: analyze_def Let_def split: if_splits)

subsection \<open>Rounding\<close>



subsection \<open>The comparator orders the values that are not NaN\<close>







lemma set_sort_with: "set (sort_with c xs) = set xs"
  by (metis mset_sort_with set_mset_mset)






subsection \<open>The fields of a result\<close>


lemma analyze_fields:
  assumes "analyze N arr = Inr r"
  shows "nums r \<noteq> []" and "count_r r = length (nums r)"
    and "sum_r r = round_js (sum_of (nums r)) 2" and "avg r = round_js (avg_of (nums r)) 2"
    and "min_r r = min_of (nums r)" and "max_r r = max_of (nums r)"
    and "range_r r = round_js (range_of (nums r)) 2"
    and "median r = round_js (median_of (nums r)) 2"
    and "stddev r = round_js (stddev_of (nums r)) 2"
    and "percentile r = percentile_of (nums r)"
    and "aboveAvg r = filter (\<lambda>n. js_gt n (avg_of (nums r))) (nums r)"
    and "belowAvg r = filter (\<lambda>n. js_lt n (avg_of (nums r))) (nums r)"
proof -
  from assms have ne: "coerce N arr \<noteq> []"
    by (auto simp: analyze_def split: if_splits)
  then have "sort_with cmp (coerce N arr) \<noteq> []"
    using length_sort_with [of cmp "coerce N arr"] by auto
  with assms ne show "nums r \<noteq> []" by (auto simp: analyze_def Let_def)
  from assms ne show "count_r r = length (nums r)"
    and "sum_r r = round_js (sum_of (nums r)) 2" and "avg r = round_js (avg_of (nums r)) 2"
    and "min_r r = min_of (nums r)" and "max_r r = max_of (nums r)"
    and "range_r r = round_js (range_of (nums r)) 2"
    and "median r = round_js (median_of (nums r)) 2"
    and "stddev r = round_js (stddev_of (nums r)) 2"
    and "percentile r = percentile_of (nums r)"
    and "aboveAvg r = filter (\<lambda>n. js_gt n (avg_of (nums r))) (nums r)"
    and "belowAvg r = filter (\<lambda>n. js_lt n (avg_of (nums r))) (nums r)"
    by (auto simp: analyze_def Let_def)
qed

lemma analyze_nums_not_NaN:
  assumes "analyze N arr = Inr r" and "x \<in> set (nums r)"
  shows "\<not> isNaN x"
proof -
  from assms(1) have "nums r = sort_with cmp (coerce N arr)" by (simp add: analyze_nums)
  with assms(2) have "x \<in> set (coerce N arr)" by (simp add: set_sort_with)
  then show ?thesis by (rule coerce_not_NaN)
qed

lemma percentile_of_at_index:
  assumes "0 \<le> p" and "p \<le> 100" and "p / 100 * (real (length xs) - 1) = real k"
    and "k < length xs"
  shows "percentile_of xs (Fin p) = xs ! k"
  using assms by (simp add: percentile_of_def js_gt_def js_eq_def at_index_def)

lemma percentile_of_0: "xs \<noteq> [] \<Longrightarrow> percentile_of xs (Fin 0) = xs ! 0"
  using percentile_of_at_index [of 0 xs 0] by simp

lemma percentile_of_100: "xs \<noteq> [] \<Longrightarrow> percentile_of xs (Fin 100) = xs ! (length xs - 1)"
  using percentile_of_at_index [of 100 xs "length xs - 1"]
  by (cases xs) (simp_all add: of_nat_diff)

lemma percentile_of_50:
  assumes "odd (length xs)"
  shows "percentile_of xs (Fin 50) = xs ! ((length xs - 1) div 2)"
proof -
  from assms obtain k where k: "length xs = 2 * k + 1" by (auto elim: oddE)
  then have "50 / 100 * (real (length xs) - 1) = real k" by simp
  from percentile_of_at_index [OF _ _ this] k show ?thesis by simp
qed

lemma median_of_odd: "odd (length xs) \<Longrightarrow> median_of xs = xs ! ((length xs - 1) div 2)"
  by (simp add: median_of_def Let_def odd_iff_mod_2_eq_one)



subsection \<open>Arrays of finite values\<close>


















subsection \<open>Percentiles of finite values\<close>






section \<open>The claims\<close>

subsection \<open>C1: what the coercion discards\<close>

text \<open>
  C1 says that an element that is an infinity, and a text whose conversion is an
  infinity, is discarded by the coercion step. The guard of the coercion is
  \<open>!isNaN\<close>, which an infinity passes: the three elements below are all kept.
\<close>

theorem coerce_keeps_infinities:
  "coerce Number_decimal [Num PInf, Num NInf, Str ''Infinity''] = [PInf, NInf, PInf]"
  by (simp add: example_defs)

text \<open>
  C1, amended: NaN never appears in the coerced sequence. An element that is a number,
  or a text that is not blank, is discarded when the number (the conversion of the text)
  is NaN, and kept in its place otherwise, the infinities included.
\<close>

theorem coerce_discards_NaN_only:
  "NaN \<notin> set (coerce N arr)
   \<and> (x = Num n \<or> (x = Str s \<and> trim s \<noteq> [] \<and> N s = n) \<longrightarrow>
        coerce N (xs @ x # ys) =
          (if isNaN n then coerce N xs @ coerce N ys else coerce N xs @ n # coerce N ys))"
proof -
  have "NaN \<notin> set (coerce N arr)"
    using coerce_not_NaN [of NaN N arr] by auto
  moreover have "coerce N (xs @ x # ys) =
          (if isNaN n then coerce N xs @ coerce N ys else coerce N xs @ n # coerce N ys)"
    if "x = Num n \<or> (x = Str s \<and> trim s \<noteq> [] \<and> N s = n)"
    using that by (auto simp: coerce_append coerce_Cons coerce_elem_def)
  ultimately show ?thesis by blast
qed

theorem coerce_discards_NaN_only_witness:
  "coerce Number_decimal ([] @ Str ''Infinity'' # []) = [PInf]
   \<and> coerce Number_decimal ([] @ Num NaN # []) = []"
  using coerce_discards_NaN_only
          [of Number_decimal "[]" "Str ''Infinity''" PInf "''Infinity''" "[]" "[]"]
        coerce_discards_NaN_only [of Number_decimal "[]" "Num NaN" NaN "[]" "[]" "[]"]
  by (simp add: example_defs)

subsection \<open>C2: the rounding to two decimal digits\<close>




subsection \<open>C3: the invariant of a successful result\<close>





subsection \<open>C4: the empty dataset\<close>

text \<open>
  C4: when the coerced sequence is empty, \<open>analyze\<close> returns the error with the message
  \<open>No valid numeric values found.\<close> and nothing else; in every other case it returns a
  success record. The error is a value of the result type.
\<close>

theorem analyze_error_iff_empty:
  "(coerce N arr = [] \<longrightarrow> analyze N arr = Inl ''No valid numeric values found.'')
   \<and> (coerce N arr \<noteq> [] \<longrightarrow> (\<exists>r. analyze N arr = Inr r))"
  using analyze_Inl analyze_Inr by blast

theorem analyze_error_iff_empty_witness:
  "analyze Number_decimal [] = Inl ''No valid numeric values found.''
   \<and> analyze Number_decimal [Null, Str ''abc'', Str ''  '', Num NaN, Bool True] =
       Inl ''No valid numeric values found.''
   \<and> (\<exists>r. analyze Number_decimal [Num (Fin 1)] = Inr r)"
  using analyze_error_iff_empty [of Number_decimal "[]"]
        analyze_error_iff_empty
          [of Number_decimal "[Null, Str ''abc'', Str ''  '', Num NaN, Bool True]"]
        analyze_error_iff_empty [of Number_decimal "[Num (Fin 1)]"]
  by (simp add: example_defs)

subsection \<open>C5: the percentiles 0, 100 and 50\<close>

text \<open>
  C5: for every successful result, \<open>percentile(0)\<close> is \<open>min\<close>, \<open>percentile(100)\<close> is
  \<open>max\<close>, and when \<open>count\<close> is odd \<open>percentile(50)\<close> is the median before rounding.
  Equality is \<open>===\<close>.
\<close>

theorem percentile_min_max_median:
  assumes "analyze N arr = Inr r"
  shows "js_eq (percentile r (Fin 0)) (min_r r)
       \<and> js_eq (percentile r (Fin 100)) (max_r r)
       \<and> (odd (count_r r) \<longrightarrow> js_eq (percentile r (Fin 50)) (median_of (nums r)))"
proof -
  note f = analyze_fields [OF assms]
  have nn: "\<not> isNaN (nums r ! i)" if "i < length (nums r)" for i
    using that analyze_nums_not_NaN [OF assms] by simp
  from f(1) have len: "0 < length (nums r)" by simp
  have "js_eq (percentile r (Fin 0)) (min_r r)"
    using f(1) nn [of 0] len by (simp add: f(5,10) percentile_of_0 min_of_def js_eq_def)
  moreover have "js_eq (percentile r (Fin 100)) (max_r r)"
    using f(1) nn [of "length (nums r) - 1"] len
    by (simp add: f(6,10) percentile_of_100 max_of_def js_eq_def)
  moreover have "js_eq (percentile r (Fin 50)) (median_of (nums r))" if "odd (count_r r)"
  proof -
    have "(length (nums r) - 1) div 2 < length (nums r)"
      using f(1) by (cases "nums r") (simp_all add: less_Suc_eq_le)
    from nn [OF this] that show ?thesis
      by (simp add: f(2,10) percentile_of_50 median_of_odd js_eq_def)
  qed
  ultimately show ?thesis by blast
qed

theorem percentile_min_max_median_witness:
  "\<exists>r. analyze Number_decimal [Num (Fin 3), Str ''1'', Num (Fin 2)] = Inr r
     \<and> nums r = [Fin 1, Fin 2, Fin 3] 
     \<and> js_eq (percentile r (Fin 0)) (Fin 1)
     \<and> js_eq (percentile r (Fin 100)) (Fin 3)
     \<and> js_eq (percentile r (Fin 50)) (Fin 2)"
proof -
  obtain r where r: "analyze Number_decimal [Num (Fin 3), Str ''1'', Num (Fin 2)] = Inr r"
    using analyze_Inr [of Number_decimal "[Num (Fin 3), Str ''1'', Num (Fin 2)]"]
    by (auto simp: example_defs)
  have n: "nums r = [Fin 1, Fin 2, Fin 3]"
    using analyze_nums [OF r] by (simp add: example_defs sort_with_def cmp_def js_sub_def js_gt_def)
  from analyze_fields(2,5,6) [OF r] n
  have "count_r r = 3" "min_r r = Fin 1" "max_r r = Fin 3"
    by (simp_all add: min_of_def max_of_def)
  moreover have "median_of (nums r) = Fin 2"
    by (simp add: n median_of_def)
  ultimately show ?thesis using percentile_min_max_median [OF r] r n by simp
qed

subsection \<open>C6: arrays of finite numbers\<close>

text \<open>
  C6: for a non-empty input whose elements are all finite numbers, \<open>analyze\<close> succeeds
  and \<open>count\<close> is the length of the input.
\<close>

theorem analyze_count_finite_numbers:
  assumes "arr \<noteq> []" and "\<forall>x\<in>set arr. \<exists>a. x = Num (Fin a)"
  shows "\<exists>r. analyze N arr = Inr r \<and> count_r r = length arr"
proof -
  have "length (coerce N arr) = length arr" using assms(2) by (rule coerce_all_Num)
  moreover from this assms(1) have "coerce N arr \<noteq> []" by auto
  ultimately show ?thesis
    by (simp add: analyze_def Let_def length_sort_with)
qed

theorem analyze_count_finite_numbers_witness:
  "\<exists>r. analyze Number_decimal [Num (Fin 3), Num (Fin 1), Num (Fin 2)] = Inr r \<and> count_r r = 3"
  using analyze_count_finite_numbers [of "[Num (Fin 3), Num (Fin 1), Num (Fin 2)]" Number_decimal]
  by (simp add: eval_nat_numeral)

subsection \<open>C7: the order of the input\<close>



subsection \<open>C8: percentiles are monotone\<close>




subsection \<open>C9: the variance and the square root\<close>



subsection \<open>C10: a single value\<close>




end
